theory Spec2Isabelle
  imports Main "HOL-Library.Char_ord" "HOL-Library.List_Lexorder"
begin

section \<open>Conversation reconciliation of the MissedTask front end\<close>

text \<open>
  The development embeds the chat bookkeeping of the application component \<^verbatim>\<open>App\<close> and of
  the components \<^verbatim>\<open>components/Chat.tsx\<close> and \<^verbatim>\<open>components/EnhancedChat.tsx\<close>.

  Conventions of the embedding:
  \<^item> React state is a record, and the effect of a state setter on the state is applied in
    program order. A function passed to a setter (\<^verbatim>\<open>setX(prev => ...)\<close>, an updater) is run
    by React at the call of the setter or later, when it renders. The resulting state is
    the same; what differs is a local variable that the updater writes and the calling
    function reads before React renders. \<^verbatim>\<open>loadConversationMessages\<close> does this with
    \<^verbatim>\<open>newNotifications\<close>, and takes the moment the updaters run as a parameter. That React
    calls an updater twice in development builds is not modelled;
  \<^item> a function reads \<^verbatim>\<open>user\<close>, \<^verbatim>\<open>users\<close> and \<^verbatim>\<open>showChatPopup\<close> from its closure, which holds
    the values of the render that created the function: they are a parameter of the
    functions that read them, apart from the state. The poll timer and the WebSocket
    handler keep calling the function of an earlier render;
  \<^item> \<^verbatim>\<open>localStorage\<close> is a map from keys to strings;
  \<^item> the result of the awaited REST call is an argument of the function that awaits it;
  \<^item> identifiers are strings, compared as JavaScript compares strings: lexicographically,
    character by character;
  \<^item> an optional JSON field is absent (\<^verbatim>\<open>undefined\<close>), \<^verbatim>\<open>null\<close> or a string; JavaScript's
    \<^verbatim>\<open>a || b\<close> takes \<^verbatim>\<open>b\<close> when \<^verbatim>\<open>a\<close> is absent, \<^verbatim>\<open>null\<close> or the empty string;
  \<^item> \<^verbatim>\<open>Date.now().toString()\<close> and \<^verbatim>\<open>new Date().toISOString()\<close> are read from a clock
    record passed to every operation.
\<close>

subsection \<open>JavaScript values of optional string fields\<close>

datatype jsval = Undefined | Null | Str string

definition js_truthy :: "jsval \<Rightarrow> bool" where
  "js_truthy v = (case v of Str s \<Rightarrow> s \<noteq> [] | _ \<Rightarrow> False)"

definition js_or :: "jsval \<Rightarrow> jsval \<Rightarrow> jsval" where
  "js_or a b = (if js_truthy a then a else b)"

definition js_or_default :: "jsval \<Rightarrow> string \<Rightarrow> string" where
  \<comment> \<open>\<^verbatim>\<open>a || 'd'\<close>, which is a string\<close>
  "js_or_default a d = (case a of Str s \<Rightarrow> if s \<noteq> [] then s else d | _ \<Rightarrow> d)"

definition js_field :: "('a \<Rightarrow> string) \<Rightarrow> 'a option \<Rightarrow> jsval" where
  \<comment> \<open>\<^verbatim>\<open>x?.f\<close> for an object \<^verbatim>\<open>x\<close> that may be \<^verbatim>\<open>null\<close> and a string field \<^verbatim>\<open>f\<close>\<close>
  "js_field f x = (case x of None \<Rightarrow> Undefined | Some y \<Rightarrow> Str (f y))"

definition truthy :: "string option \<Rightarrow> bool" where
  \<comment> \<open>truthiness of the result of \<^verbatim>\<open>localStorage.getItem\<close>, which is \<^verbatim>\<open>null\<close> or a string\<close>
  "truthy v = (case v of None \<Rightarrow> False | Some s \<Rightarrow> s \<noteq> [])"

definition ellipsis :: "nat \<Rightarrow> string \<Rightarrow> string" where
  \<comment> \<open>\<^verbatim>\<open>s.length > n ? s.substring(0, n) + '...' : s\<close>\<close>
  "ellipsis n s = (if length s > n then take n s @ ''...'' else s)"

subsection \<open>Data\<close>

record clock =
  now_ms :: string
  now_iso :: string

record raw_author =
  a_id :: jsval
  a_name :: jsval
  a_avatar :: jsval

text \<open>A message as the backend sends it (REST body or WebSocket payload).\<close>

record raw_message =
  r_id :: string
  content :: string
  created_at :: jsval
  sender_id :: jsval
  sender_name :: jsval
  sender_avatar :: jsval
  author_id :: jsval
  author_name :: jsval
  author_avatar :: jsval
  author :: "raw_author option"
  conversation_id :: jsval

text \<open>The local format of App's \<^verbatim>\<open>chatMessages\<close>.\<close>

record chat_message =
  m_id :: string
  m_user :: string
  m_userId :: string
  m_message :: string
  m_timestamp :: jsval
  m_avatar :: string

datatype notification_type =
  issue_created | issue_updated | issue_assigned | comment_added | status_changed
  | user_joined | new_message

text \<open>
  The \<^verbatim>\<open>data\<close> field of a notification is \<^verbatim>\<open>any\<close> in the source. Two shapes are written:
  \<^verbatim>\<open>{conversationId, messageId}\<close> by \<^verbatim>\<open>loadConversationMessages\<close> and
  \<^verbatim>\<open>{message_id, sender_id, conversation_id}\<close> by the WebSocket handler.
\<close>

datatype notification_data =
  NoData
  | PollData (d_conversationId: string) (d_messageId: string)
  | PushData (d_message_id: string) (d_sender_id: jsval) (d_conversation_id: jsval)

record notification =
  n_id :: string
  n_type :: notification_type
  n_title :: string
  n_message :: string
  n_read :: bool
  n_timestamp :: string
  n_data :: notification_data

record toast =
  t_id :: string
  t_type :: string
  t_title :: string
  t_message :: string

record user_rec =
  u_id :: string
  u_name :: string
  u_avatar :: string

record app_state =
  user :: "user_rec option"
  users :: "user_rec list"
  notifications :: "notification list"
  toasts :: "toast list"
  showChatPopup :: bool
  chatMessages :: "chat_message list"
  conversations :: "string \<rightharpoonup> chat_message list"
  unreadMessagesCount :: nat
  localStorage :: "string \<rightharpoonup> string"

text \<open>
  The values that a function of App finds in its closure: those of the render that
  created it.
\<close>

record closure =
  cl_user :: "user_rec option"
  cl_users :: "user_rec list"
  cl_showChatPopup :: bool


text \<open>
  When React runs the updaters of \<^verbatim>\<open>setNotifications\<close>: at the call of the setter, so that
  they have run when the calling function goes on, or when it renders, after the calling
  function has returned.
\<close>

datatype updaters = AtCall | AtRender

text \<open>
  What an awaited \<^verbatim>\<open>apiCall\<close> gives: it throws after a 401 (having cleared the session),
  throws with an error message otherwise, or returns the parsed body. The body of the
  message history is an array, or an object with an optional \<^verbatim>\<open>messages\<close> field. (An
  empty response body makes \<^verbatim>\<open>apiCall\<close> return \<^verbatim>\<open>null\<close>, and \<^verbatim>\<open>loadConversationMessages\<close>
  then throws a TypeError into its own \<^verbatim>\<open>catch\<close> block: this is the case \<open>Failed\<close> with the
  message of that error.)
\<close>

datatype 'a api_result = Unauthorized | Failed string | Body 'a

datatype history_body = ArrayBody "raw_message list" | ObjectBody "raw_message list option"

subsection \<open>Helpers of App\<close>

definition showToast :: "clock \<Rightarrow> string \<Rightarrow> string \<Rightarrow> string \<Rightarrow> app_state \<Rightarrow> app_state" where
  "showToast clk ty title msg s =
     s\<lparr>toasts := toasts s @ [\<lparr>t_id = now_ms clk, t_type = ty, t_title = title, t_message = msg\<rparr>]\<rparr>"

definition addNotification ::
  "clock \<Rightarrow> notification_type \<Rightarrow> string \<Rightarrow> string \<Rightarrow> bool \<Rightarrow> notification_data
     \<Rightarrow> app_state \<Rightarrow> app_state" where
  "addNotification clk ty title msg rd dat s =
     s\<lparr>notifications :=
         \<lparr>n_id = now_ms clk, n_type = ty, n_title = title, n_message = msg, n_read = rd,
          n_timestamp = now_iso clk, n_data = dat\<rparr> # notifications s\<rparr>"

text \<open>
  \<^verbatim>\<open>apiCall\<close>, as far as the caller sees it: the state after the call and either the
  message of the thrown error or the body. Of the session state that the source clears
  after a 401, the record has \<^verbatim>\<open>user\<close> and the three keys of the storage.
\<close>

definition apiCall :: "clock \<Rightarrow> 'a api_result \<Rightarrow> app_state \<Rightarrow> app_state \<times> (string + 'a)" where
  "apiCall clk response s =
     (case response of
        Unauthorized \<Rightarrow>
          (showToast clk ''warning'' ''Session Expired'' ''Please login again''
             (s\<lparr>user := None,
                localStorage := (localStorage s)(''accessToken'' := None, ''user'' := None,
                                                 ''organization'' := None)\<rparr>),
           Inl ''Session expired. Please login again.'')
      | Failed msg \<Rightarrow> (s, Inl msg)
      | Body b \<Rightarrow> (s, Inr b))"

definition messagesOf :: "history_body \<Rightarrow> raw_message list" where
  \<comment> \<open>\<^verbatim>\<open>Array.isArray(response) ? response : response.messages || []\<close>\<close>
  "messagesOf response =
     (case response of ArrayBody ms \<Rightarrow> ms | ObjectBody None \<Rightarrow> [] | ObjectBody (Some ms) \<Rightarrow> ms)"

subsection \<open>loadConversationMessages\<close>

definition formatMessage :: "raw_message \<Rightarrow> chat_message" where
  "formatMessage msg =
     \<lparr>m_id = r_id msg,
      m_user = js_or_default
                 (js_or (js_or (sender_name msg) (author_name msg))
                        (case author msg of None \<Rightarrow> Undefined | Some a \<Rightarrow> a_name a)) ''Unknown'',
      m_userId = js_or_default
                 (js_or (js_or (sender_id msg) (author_id msg))
                        (case author msg of None \<Rightarrow> Undefined | Some a \<Rightarrow> a_id a)) [],
      m_message = content msg,
      m_timestamp = created_at msg,
      m_avatar = js_or_default
                 (js_or (js_or (sender_avatar msg) (author_avatar msg))
                        (case author msg of None \<Rightarrow> Undefined | Some a \<Rightarrow> a_avatar a)) ''U''\<rparr>"

definition lastSeenKey :: "string \<Rightarrow> string" where
  "lastSeenKey conversationId = ''lastSeenMessage_'' @ conversationId"

definition notificationId :: "string \<Rightarrow> string" where
  "notificationId mid = ''msg_'' @ mid"

definition isFromOtherUser :: "user_rec option \<Rightarrow> chat_message \<Rightarrow> bool" where
  \<comment> \<open>\<^verbatim>\<open>msg.userId !== user?.id\<close>: a string never equals \<^verbatim>\<open>undefined\<close>\<close>
  "isFromOtherUser usr msg = (case usr of None \<Rightarrow> True | Some u \<Rightarrow> m_userId msg \<noteq> u_id u)"

definition isNewMessage :: "user_rec option \<Rightarrow> string \<Rightarrow> chat_message \<Rightarrow> bool" where
  "isNewMessage usr lastSeenMessageId msg =
     (isFromOtherUser usr msg \<and> lastSeenMessageId < m_id msg)"

definition newNotif :: "clock \<Rightarrow> string \<Rightarrow> chat_message \<Rightarrow> notification" where
  "newNotif clk conversationId msg =
     \<lparr>n_id = notificationId (m_id msg),
      n_type = new_message,
      n_title = ''New message from '' @ m_user msg,
      n_message = ellipsis 40 (m_message msg),
      n_read = False,
      n_timestamp = js_or_default (m_timestamp msg) (now_iso clk),
      n_data = PollData conversationId (m_id msg)\<rparr>"

text \<open>
  The \<^verbatim>\<open>forEach\<close> over the formatted messages with its updaters run in order. The pair is
  the notification list (\<^verbatim>\<open>prev\<close> of the updater) and the local array
  \<^verbatim>\<open>newNotifications\<close>, as they are once every updater has run.
\<close>

fun notifyLoop ::
  "clock \<Rightarrow> user_rec option \<Rightarrow> string \<Rightarrow> string \<Rightarrow> chat_message list
     \<Rightarrow> notification list \<times> notification list \<Rightarrow> notification list \<times> notification list" where
  "notifyLoop clk usr conversationId lastSeen [] acc = acc"
| "notifyLoop clk usr conversationId lastSeen (msg # msgs) (prev, newNotifications) =
     (if isNewMessage usr lastSeen msg \<and> isFromOtherUser usr msg then
        (case find (\<lambda>n. n_id n = notificationId (m_id msg)) prev of
           None \<Rightarrow>
             notifyLoop clk usr conversationId lastSeen msgs
               (newNotif clk conversationId msg # prev,
                newNotifications @ [newNotif clk conversationId msg])
         | Some exists \<Rightarrow>
             notifyLoop clk usr conversationId lastSeen msgs (prev, newNotifications))
      else notifyLoop clk usr conversationId lastSeen msgs (prev, newNotifications))"

definition markConversationRead :: "string \<Rightarrow> notification \<Rightarrow> notification" where
  \<comment> \<open>\<^verbatim>\<open>n.type === 'new_message' && n.data?.conversationId === conversationId ? {...n, read: true} : n\<close>\<close>
  "markConversationRead cid n =
     (if n_type n = new_message \<and>
         (case n_data n of PollData c m \<Rightarrow> c = cid | _ \<Rightarrow> False)
      then n\<lparr>n_read := True\<rparr> else n)"

text \<open>
  \<open>lengthAtTest\<close> is \<^verbatim>\<open>newNotifications.length\<close> where the source tests it, right after the
  \<^verbatim>\<open>forEach\<close>: the pushes are made inside the updaters, so the array is still empty there
  when React runs the updaters at render. The updater of the counter
  (\<^verbatim>\<open>prev => prev + newNotifications.length\<close>) runs after them and reads the full length.
\<close>

definition loadConversationMessages ::
  "clock \<Rightarrow> updaters \<Rightarrow> closure \<Rightarrow> string \<Rightarrow> history_body api_result \<Rightarrow> app_state
     \<Rightarrow> app_state" where
  "loadConversationMessages clk sched cl conversationId response s0 =
     (case apiCall clk response s0 of
        (s, Inl err) \<Rightarrow>
          showToast clk ''error'' ''Error''
            (if err \<noteq> [] then err else ''Failed to load messages'') s
      | (s, Inr body) \<Rightarrow>
          (let messages = messagesOf body;
               formattedMessages = map formatMessage messages;
               lastSeenMessageId = localStorage s (lastSeenKey conversationId);
               s1 = (if \<not> truthy lastSeenMessageId \<and> formattedMessages \<noteq> []
                        \<and> \<not> cl_showChatPopup cl
                     then s\<lparr>localStorage := (localStorage s)
                              (lastSeenKey conversationId \<mapsto> m_id (last formattedMessages))\<rparr>
                     else s);
               s2 = (if \<not> cl_showChatPopup cl \<and> formattedMessages \<noteq> []
                        \<and> truthy lastSeenMessageId
                     then (case notifyLoop clk (cl_user cl) conversationId
                                  (case lastSeenMessageId of None \<Rightarrow> [] | Some w \<Rightarrow> w)
                                  formattedMessages (notifications s1, []) of
                             (ns, newNotifications) \<Rightarrow>
                               (let lengthAtTest =
                                      (case sched of AtCall \<Rightarrow> length newNotifications
                                                   | AtRender \<Rightarrow> 0)
                                in if lengthAtTest > 0
                                   then s1\<lparr>notifications := ns,
                                           unreadMessagesCount :=
                                             unreadMessagesCount s1 + length newNotifications\<rparr>
                                   else s1\<lparr>notifications := ns\<rparr>))
                     else s1);
               s3 = (if cl_showChatPopup cl \<and> formattedMessages \<noteq> []
                     then s2\<lparr>localStorage := (localStorage s2)
                               (lastSeenKey conversationId \<mapsto> m_id (last formattedMessages)),
                             unreadMessagesCount := 0,
                             notifications := map (markConversationRead conversationId)
                                                (notifications s2)\<rparr>
                     else s2)
           in s3\<lparr>chatMessages := formattedMessages,
                 conversations := (conversations s3)(conversationId \<mapsto> formattedMessages)\<rparr>))"

subsection \<open>sendMessageAPI and the chat launcher\<close>

text \<open>
  After its error toast \<^verbatim>\<open>sendMessageAPI\<close> throws the error again; its caller logs it. The
  model gives the state.
\<close>

definition sendMessageAPI ::
  "clock \<Rightarrow> closure \<Rightarrow> string \<Rightarrow> raw_message api_result \<Rightarrow> app_state \<Rightarrow> app_state" where
  "sendMessageAPI clk cl conversationId response s0 =
     (case apiCall clk response s0 of
        (s, Inl err) \<Rightarrow>
          showToast clk ''error'' ''Error''
            (if err \<noteq> [] then err else ''Failed to send message'') s
      | (s, Inr resp) \<Rightarrow>
          (let newMessage =
                 \<lparr>m_id = r_id resp,
                  m_user = js_or_default
                     (js_or (js_or (sender_name resp) (author_name resp))
                            (js_field u_name (cl_user cl))) ''You'',
                  m_userId = js_or_default
                     (js_or (js_or (sender_id resp) (author_id resp))
                            (js_field u_id (cl_user cl))) [],
                  m_message = content resp,
                  m_timestamp = created_at resp,
                  m_avatar = js_or_default
                     (js_or (js_or (sender_avatar resp) (author_avatar resp))
                            (js_field u_avatar (cl_user cl))) ''U''\<rparr>
           in s\<lparr>chatMessages := chatMessages s @ [newMessage],
                conversations := (conversations s)
                  (conversationId \<mapsto>
                     (case conversations s conversationId of None \<Rightarrow> [] | Some ms \<Rightarrow> ms)
                       @ [newMessage])\<rparr>))"

definition toggleChat :: "app_state \<Rightarrow> app_state" where
  \<comment> \<open>the floating chat button: \<^verbatim>\<open>setShowChatPopup(!showChatPopup); if (!showChatPopup) setUnreadMessagesCount(0)\<close>\<close>
  "toggleChat s =
     (if \<not> showChatPopup s
      then s\<lparr>showChatPopup := True, unreadMessagesCount := 0\<rparr>
      else s\<lparr>showChatPopup := False\<rparr>)"

definition closeChat :: "app_state \<Rightarrow> app_state" where
  \<comment> \<open>the close button of the popup: \<^verbatim>\<open>setShowChatPopup(false)\<close>\<close>
  "closeChat s = s\<lparr>showChatPopup := False\<rparr>"

definition markNotificationAsRead :: "string \<Rightarrow> app_state \<Rightarrow> app_state" where
  "markNotificationAsRead nid s =
     (let opens = (case find (\<lambda>n. n_id n = nid) (notifications s) of
                     None \<Rightarrow> False
                   | Some n \<Rightarrow> n_type n = new_message \<and>
                       (case n_data n of PollData c m \<Rightarrow> c \<noteq> [] | _ \<Rightarrow> False));
          s1 = (if opens then s\<lparr>showChatPopup := True\<rparr> else s)
      in s1\<lparr>notifications :=
              map (\<lambda>n. if n_id n = nid then n\<lparr>n_read := True\<rparr> else n) (notifications s1)\<rparr>)"

definition markAllNotificationsAsRead :: "app_state \<Rightarrow> app_state" where
  "markAllNotificationsAsRead s =
     s\<lparr>notifications := map (\<lambda>n. n\<lparr>n_read := True\<rparr>) (notifications s)\<rparr>"

subsection \<open>The WebSocket handler of App\<close>

text \<open>
  An incoming event: its \<^verbatim>\<open>data\<close> is not JSON (or not a JSON object), or it is an envelope
  with the fields the handler reads, \<^verbatim>\<open>type\<close> and \<^verbatim>\<open>message\<close> (absent when it is missing,
  \<^verbatim>\<open>null\<close> or otherwise falsy).
\<close>

record envelope =
  e_type :: jsval
  e_message :: "raw_message option"

datatype ws_event = NotJson | Json envelope

text \<open>
  The handler that \<^verbatim>\<open>connectWebSocket\<close> assigns. Its \<^verbatim>\<open>user\<close> and \<^verbatim>\<open>users\<close> are those of the
  closure of \<^verbatim>\<open>connectWebSocket\<close>. \<^verbatim>\<open>message.sender_id !== user?.id\<close> compares without
  conversion: \<^verbatim>\<open>null\<close> differs from \<^verbatim>\<open>undefined\<close>.
\<close>

definition connectWebSocket_onmessage ::
  "clock \<Rightarrow> closure \<Rightarrow> ws_event \<Rightarrow> app_state \<Rightarrow> app_state" where
  "connectWebSocket_onmessage clk cl event s =
     (case event of
        NotJson \<Rightarrow> s
      | Json data \<Rightarrow>
          (if e_type data = Str ''chat_message'' then
             (case e_message data of
                None \<Rightarrow> s
              | Some message \<Rightarrow>
                  (if sender_id message \<noteq> js_field u_id (cl_user cl) then
                     (let sender = find (\<lambda>u. Str (u_id u) = sender_id message) (cl_users cl);
                          senderName = js_or_default
                             (js_or (js_field u_name sender) (sender_name message)) ''Someone''
                      in addNotification clk comment_added (''New Message from '' @ senderName)
                           (ellipsis 100 (content message)) False
                           (PushData (r_id message) (sender_id message) (conversation_id message))
                           (showToast clk ''info'' (''New Message from '' @ senderName)
                              (ellipsis 50 (content message)) s))
                   else s))
           else s))"

subsection \<open>Operations of App in sequence\<close>

datatype app_op =
  Load clock updaters closure string "history_body api_result"
  | Push clock closure ws_event
  | Send clock closure string "raw_message api_result"
  | ToggleChat
  | CloseChat
  | MarkRead string
  | MarkAllRead

fun step :: "app_op \<Rightarrow> app_state \<Rightarrow> app_state" where
  "step (Load clk sched cl conversationId response) s =
     loadConversationMessages clk sched cl conversationId response s"
| "step (Push clk cl event) s = connectWebSocket_onmessage clk cl event s"
| "step (Send clk cl conversationId response) s = sendMessageAPI clk cl conversationId response s"
| "step ToggleChat s = toggleChat s"
| "step CloseChat s = closeChat s"
| "step (MarkRead nid) s = markNotificationAsRead nid s"
| "step MarkAllRead s = markAllNotificationsAsRead s"

fun run :: "app_op list \<Rightarrow> app_state \<Rightarrow> app_state" where
  "run [] s = s"
| "run (x # xs) s = run xs (step x s)"

subsection \<open>The Chat component\<close>

text \<open>
  \<^verbatim>\<open>Chat.tsx\<close> keeps the messages as the backend sends them. Of its state the model has the
  message list and the error banner, and of its operations the ones that await a REST
  call.
\<close>

record chat_state =
  messages :: "raw_message list"
  chat_error :: "string option"

definition errorMessage :: "'a api_result \<Rightarrow> string" where
  "errorMessage r = (case r of Failed msg \<Rightarrow> msg | _ \<Rightarrow> ''Session expired. Please login again.'')"

definition loadMessages :: "history_body api_result \<Rightarrow> chat_state \<Rightarrow> chat_state" where
  "loadMessages response c =
     (case response of
        Body b \<Rightarrow> c\<lparr>messages := messagesOf b\<rparr>
      | _ \<Rightarrow> c\<lparr>chat_error := Some (''Failed to load messages: '' @ errorMessage response),
              messages := []\<rparr>)"

definition appendUnlessPresent :: "raw_message \<Rightarrow> raw_message list \<Rightarrow> raw_message list" where
  \<comment> \<open>\<^verbatim>\<open>prev.some(m => m.id === message.id) ? prev : [...prev, message]\<close>\<close>
  "appendUnlessPresent message prev =
     (if list_ex (\<lambda>m. r_id m = r_id message) prev then prev else prev @ [message])"

definition sendMessage :: "raw_message api_result \<Rightarrow> chat_state \<Rightarrow> chat_state" where
  "sendMessage response c =
     (case response of
        Body message \<Rightarrow> c\<lparr>messages := appendUnlessPresent message (messages c)\<rparr>
      | _ \<Rightarrow> c\<lparr>chat_error := Some ''Failed to send message''\<rparr>)"

definition deleteMessage :: "string \<Rightarrow> unit api_result \<Rightarrow> chat_state \<Rightarrow> chat_state" where
  "deleteMessage messageId response c =
     (case response of
        Body u \<Rightarrow> c\<lparr>messages := filter (\<lambda>m. r_id m \<noteq> messageId) (messages c)\<rparr>
      | _ \<Rightarrow> c\<lparr>chat_error := Some ''Failed to delete message''\<rparr>)"

datatype chat_op =
  ChatLoad "history_body api_result"
  | ChatSend "raw_message api_result"
  | ChatDelete string "unit api_result"

fun chat_step :: "chat_op \<Rightarrow> chat_state \<Rightarrow> chat_state" where
  "chat_step (ChatLoad response) c = loadMessages response c"
| "chat_step (ChatSend response) c = sendMessage response c"
| "chat_step (ChatDelete messageId response) c = deleteMessage messageId response c"

fun chat_run :: "chat_op list \<Rightarrow> chat_state \<Rightarrow> chat_state" where
  "chat_run [] c = c"
| "chat_run (x # xs) c = chat_run xs (chat_step x c)"

subsection \<open>The shared WebSocket and its handlers\<close>

text \<open>
  A handler is a plain function of the event, or the arrow function that
  \<^verbatim>\<open>connectSocket\<close> of \<^verbatim>\<open>Chat.tsx\<close> builds around the handler it found
  (\<^verbatim>\<open>originalOnMessage\<close>, possibly \<^verbatim>\<open>null\<close>) and its own body. Handlers act on a state \<open>'s\<close>
  and return.
\<close>

datatype ('e, 's) handler =
  Fn "'e \<Rightarrow> 's \<Rightarrow> 's"
  | Chained "('e, 's) handler option" "'e \<Rightarrow> 's \<Rightarrow> 's"

fun call :: "('e, 's) handler \<Rightarrow> 'e \<Rightarrow> 's \<Rightarrow> 's" where
  "call (Fn f) event st = f event st"
| "call (Chained None body) event st = body event st"
| "call (Chained (Some originalOnMessage) body) event st =
     body event (call originalOnMessage event st)"

datatype ready_state = CONNECTING | OPEN | CLOSING | CLOSED

record ('e, 's) websocket =
  onmessage :: "('e, 's) handler option"
  listeners :: "('e, 's) handler list"
  readyState :: ready_state

definition newWebSocket :: "('e, 's) websocket" where
  \<comment> \<open>\<^verbatim>\<open>new WebSocket(wsUrl)\<close>\<close>
  "newWebSocket = \<lparr>onmessage = None, listeners = [], readyState = CONNECTING\<rparr>"

text \<open>
  Delivery of one event on a socket: the \<^verbatim>\<open>onmessage\<close> handler, which App sets when it
  creates the socket, then the listeners in the order of their registration. Delivery
  through \<^verbatim>\<open>wsRef\<close> is delivery on the socket that \<^verbatim>\<open>wsRef.current\<close> holds.
\<close>

definition dispatch :: "('e, 's) websocket \<Rightarrow> 'e \<Rightarrow> 's \<Rightarrow> 's" where
  "dispatch ws event st =
     fold (\<lambda>h. call h event) (listeners ws)
       (case onmessage ws of None \<Rightarrow> st | Some h \<Rightarrow> call h event st)"

definition dispatchRef :: "('e, 's) websocket option \<Rightarrow> 'e \<Rightarrow> 's \<Rightarrow> 's" where
  "dispatchRef wsRef event st = (case wsRef of None \<Rightarrow> st | Some ws \<Rightarrow> dispatch ws event st)"

text \<open>
  \<^verbatim>\<open>connectWebSocket\<close> of App, given the \<^verbatim>\<open>accessToken\<close> of its closure: it returns at once
  when the token is empty; otherwise it closes the socket that \<^verbatim>\<open>wsRef.current\<close> holds,
  puts a new socket there and assigns its handler to it. The result is the closed socket,
  if any, and the new content of \<^verbatim>\<open>wsRef.current\<close>. (Every branch of the source gives the
  URL a value, so its test of the URL never returns.)
\<close>

definition connectWebSocket ::
  "string \<Rightarrow> ('e \<Rightarrow> 's \<Rightarrow> 's) \<Rightarrow> ('e, 's) websocket option
     \<Rightarrow> ('e, 's) websocket option \<times> ('e, 's) websocket option" where
  "connectWebSocket accessToken appHandler wsRef =
     (if accessToken = [] then (None, wsRef)
      else (map_option (\<lambda>ws. ws\<lparr>readyState := CLOSING\<rparr>) wsRef,
            Some (newWebSocket\<lparr>onmessage := Some (Fn appHandler)\<rparr>)))"

definition connectSocket ::
  "('e \<Rightarrow> 's \<Rightarrow> 's) \<Rightarrow> ('e, 's) websocket option \<Rightarrow> ('e, 's) websocket option" where
  "connectSocket body wsRef =
     (case wsRef of
        None \<Rightarrow> None
      | Some ws \<Rightarrow>
          (if readyState ws = OPEN
           then Some (ws\<lparr>onmessage := Some (Chained (onmessage ws) body)\<rparr>)
           else Some ws))"

definition addEventListener ::
  "('e \<Rightarrow> 's \<Rightarrow> 's) \<Rightarrow> ('e, 's) websocket option \<Rightarrow> ('e, 's) websocket option" where
  \<comment> \<open>\<^verbatim>\<open>EnhancedChat.tsx\<close>: \<^verbatim>\<open>if (!wsRef.current) return; wsRef.current.addEventListener('message', handleMessage)\<close>\<close>
  "addEventListener handleMessage wsRef =
     (case wsRef of
        None \<Rightarrow> None
      | Some ws \<Rightarrow> Some (ws\<lparr>listeners := listeners ws @ [Fn handleMessage]\<rparr>))"

subsection \<open>Notions used in the statements\<close>

text \<open>
  The sender identifier of a fetched message in the words of the specification: the
  backend labels it \<^verbatim>\<open>sender_id\<close> or \<^verbatim>\<open>author_id\<close> or nests it under an \<^verbatim>\<open>author\<close> object;
  the first of the three that is present and not empty counts, and the empty string stands
  for none.
\<close>

fun firstPresent :: "jsval list \<Rightarrow> string" where
  "firstPresent [] = []"
| "firstPresent (Str s # vs) = (if s = [] then firstPresent vs else s)"
| "firstPresent (Undefined # vs) = firstPresent vs"
| "firstPresent (Null # vs) = firstPresent vs"

definition senderIdentifier :: "raw_message \<Rightarrow> string" where
  "senderIdentifier m =
     firstPresent [sender_id m, author_id m,
                   (case author m of None \<Rightarrow> Undefined | Some a \<Rightarrow> a_id a)]"

text \<open>
  The identifiers of the fetched messages that another user than \<open>uid\<close> sent and that sort
  after the watermark \<open>w\<close>.
\<close>

definition newArrivals :: "string \<Rightarrow> string \<Rightarrow> raw_message list \<Rightarrow> string set" where
  "newArrivals uid w ms = {r_id m | m. m \<in> set ms \<and> senderIdentifier m \<noteq> uid \<and> w < r_id m}"

text \<open>
  The notification keys of the messages of a formatted list that
  \<^verbatim>\<open>loadConversationMessages\<close> classifies as new against the watermark \<open>w\<close>.
\<close>

definition newKeys :: "user_rec option \<Rightarrow> string \<Rightarrow> chat_message list \<Rightarrow> string set" where
  "newKeys usr w ms = {notificationId (m_id m) | m. m \<in> set ms \<and> isNewMessage usr w m}"

text \<open>
  The notification of message \<open>i\<close> of conversation \<open>c\<close> as \<^verbatim>\<open>loadConversationMessages\<close> makes
  it: unread, of type \<^verbatim>\<open>new_message\<close>, with the key \<^verbatim>\<open>msg_<i>\<close> and data that name the
  conversation and the message.
\<close>

definition pollNotification :: "string \<Rightarrow> string \<Rightarrow> notification \<Rightarrow> bool" where
  "pollNotification c i n =
     (n_id n = ''msg_'' @ i \<and> n_type n = new_message \<and> \<not> n_read n \<and> n_data n = PollData c i)"

text \<open>
  A run of successful polls of one conversation, all made by the function of one render;
  each poll has its clock reading and the array it fetches.
\<close>

definition polls ::
  "updaters \<Rightarrow> closure \<Rightarrow> string \<Rightarrow> (clock \<times> raw_message list) list \<Rightarrow> app_op list" where
  "polls sched cl c fetches = map (\<lambda>(clk, ms). Load clk sched cl c (Body (ArrayBody ms))) fetches"

text \<open>
  The identifier of the last message of every successful, non-empty fetch of conversation
  \<open>c\<close> in a sequence of operations, in the order of the fetches.
\<close>

fun loadLast :: "string \<Rightarrow> app_op \<Rightarrow> string list" where
  "loadLast c (Load clk sched cl c' (Body b)) =
     (if c' = c \<and> messagesOf b \<noteq> [] then [r_id (last (messagesOf b))] else [])"
| "loadLast c x = []"

definition loadLasts :: "string \<Rightarrow> app_op list \<Rightarrow> string list" where
  "loadLasts c ops = concat (map (loadLast c) ops)"

text \<open>The order of watermarks: an absent watermark is below every stored one.\<close>

definition wm_le :: "string option \<Rightarrow> string option \<Rightarrow> bool" where
  "wm_le a b = (case a of None \<Rightarrow> True | Some x \<Rightarrow> (case b of None \<Rightarrow> False | Some y \<Rightarrow> x \<le> y))"

text \<open>The state of App after its first render, and example data.\<close>

definition initialState :: app_state where
  "initialState =
     \<lparr>user = None, users = [], notifications = [], toasts = [], showChatPopup = False,
      chatMessages = [], conversations = Map.empty, unreadMessagesCount = 0,
      localStorage = Map.empty\<rparr>"

definition alice :: user_rec where
  "alice = \<lparr>u_id = ''u1'', u_name = ''Alice'', u_avatar = ''A''\<rparr>"

definition aliceClosed :: closure where
  "aliceClosed = \<lparr>cl_user = Some alice, cl_users = [], cl_showChatPopup = False\<rparr>"

definition aliceOpen :: closure where
  "aliceOpen = \<lparr>cl_user = Some alice, cl_users = [], cl_showChatPopup = True\<rparr>"

definition textMessage :: "string \<Rightarrow> string \<Rightarrow> string \<Rightarrow> raw_message" where
  "textMessage mid sender txt =
     \<lparr>r_id = mid, content = txt, created_at = Str ''2024-01-01T00:00:00Z'',
      sender_id = Str sender, sender_name = Undefined, sender_avatar = Undefined,
      author_id = Undefined, author_name = Undefined, author_avatar = Undefined, author = None,
      conversation_id = Str ''c1''\<rparr>"

definition at :: "string \<Rightarrow> clock" where
  "at ms = \<lparr>now_ms = ms, now_iso = ''2024-01-01T00:00:01Z''\<rparr>"

definition chatEvent :: "raw_message \<Rightarrow> ws_event" where
  "chatEvent m = Json \<lparr>e_type = Str ''chat_message'', e_message = Some m\<rparr>"

definition msg1 :: raw_message where "msg1 = textMessage ''m1'' ''u2'' ''hello''"
definition msg2 :: raw_message where "msg2 = textMessage ''m2'' ''u2'' ''are you there''"
definition msg3 :: raw_message where "msg3 = textMessage ''m3'' ''u3'' ''standup in five''"

definition closedWithWatermark :: app_state where
  "closedWithWatermark =
     initialState\<lparr>user := Some alice, localStorage := [lastSeenKey ''c1'' \<mapsto> ''m0'']\<rparr>"

definition pushes :: "app_op list" where
  "pushes = [Push (at ''1001'') aliceClosed (chatEvent msg1),
             Push (at ''1002'') aliceClosed (chatEvent msg1),
             Push (at ''1003'') aliceClosed (chatEvent msg2),
             Push (at ''1004'') aliceClosed (chatEvent msg3)]"

definition twoPolls :: "(clock \<times> raw_message list) list" where
  "twoPolls = [(at ''1001'', [msg1, msg2]), (at ''4001'', [msg1, msg2, msg3])]"

definition fetch2 :: app_op where
  "fetch2 = Load (at ''1001'') AtRender aliceOpen ''c1'' (Body (ArrayBody [msg1, msg2]))"

definition fetch3 :: app_op where
  "fetch3 = Load (at ''4001'') AtRender aliceOpen ''c1'' (Body (ArrayBody [msg1, msg2, msg3]))"

definition signedIn :: app_state where
  "signedIn = initialState\<lparr>user := Some alice\<rparr>"

definition chatWithOneMessage :: chat_state where
  "chatWithOneMessage = \<lparr>messages = [msg1], chat_error = None\<rparr>"

definition ownMessage :: raw_message where
  "ownMessage = textMessage ''m7'' ''u1'' ''on my way''"

text \<open>A message of Alice that names her in \<^verbatim>\<open>author_id\<close> and has no \<^verbatim>\<open>sender_id\<close>.\<close>

definition authoredMessage :: raw_message where
  "authoredMessage =
     \<lparr>r_id = ''m8'', content = ''see you there'', created_at = Str ''2024-01-01T00:00:00Z'',
      sender_id = Undefined, sender_name = Undefined, sender_avatar = Undefined,
      author_id = Str ''u1'', author_name = Str ''Alice'', author_avatar = Undefined,
      author = None, conversation_id = Str ''c1''\<rparr>"

definition anonymousMessage :: raw_message where
  "anonymousMessage =
     \<lparr>r_id = ''m5'', content = ''ping'', created_at = Undefined,
      sender_id = Undefined, sender_name = Undefined, sender_avatar = Undefined,
      author_id = Undefined, author_name = Undefined, author_avatar = Undefined, author = None,
      conversation_id = Undefined\<rparr>"

definition emptyChat :: chat_state where
  "emptyChat = \<lparr>messages = [], chat_error = None\<rparr>"

definition openAfterPush :: "app_op list" where
  "openAfterPush = [Push (at ''1001'') aliceClosed (chatEvent msg1), ToggleChat,
                    Load (at ''2001'') AtRender aliceOpen ''c1'' (Body (ArrayBody [msg1]))]"

text \<open>A closed chat with one unread message of conversation \<^verbatim>\<open>c1\<close> and its notification.\<close>

definition oneUnread :: app_state where
  "oneUnread =
     closedWithWatermark
       \<lparr>notifications :=
          [\<lparr>n_id = ''msg_m1'', n_type = new_message, n_title = ''New message from Unknown'',
            n_message = ''hello'', n_read = False, n_timestamp = ''2024-01-01T00:00:00Z'',
            n_data = PollData ''c1'' ''m1''\<rparr>],
        unreadMessagesCount := 1\<rparr>"

text \<open>
  Handlers that add their name to a list, and an open socket with such a handler assigned
  and one listening.
\<close>

definition logCall :: "string \<Rightarrow> ws_event \<Rightarrow> string list \<Rightarrow> string list" where
  "logCall name = (\<lambda>event st. st @ [name])"

definition loggedSocket :: "(ws_event, string list) websocket" where
  "loggedSocket =
     \<lparr>onmessage = Some (Fn (logCall ''App'')), listeners = [Fn (logCall ''EnhancedChat'')],
      readyState = OPEN\<rparr>"

section \<open>Properties\<close>

text \<open>The equations that evaluate the operations on the example data.\<close>

lemmas fixture_defs = closedWithWatermark_def signedIn_def initialState_def fetch2_def fetch3_def
  msg1_def msg2_def msg3_def textMessage_def alice_def at_def chatEvent_def
  ownMessage_def anonymousMessage_def authoredMessage_def emptyChat_def openAfterPush_def
  chatWithOneMessage_def aliceClosed_def aliceOpen_def oneUnread_def pushes_def twoPolls_def

lemmas op_defs = loadConversationMessages_def apiCall_def messagesOf_def formatMessage_def
  js_or_def js_or_default_def js_truthy_def js_field_def truthy_def Let_def isNewMessage_def
  isFromOtherUser_def newNotif_def notificationId_def ellipsis_def markConversationRead_def
  toggleChat_def closeChat_def showToast_def addNotification_def
  connectWebSocket_onmessage_def sendMessageAPI_def loadMessages_def sendMessage_def
  appendUnlessPresent_def

subsection \<open>Normalisation\<close>

lemma formatMessage_id: "m_id (formatMessage m) = r_id m"
  by (simp add: formatMessage_def)

lemma formatMessage_userId: "m_userId (formatMessage m) = senderIdentifier m"
proof -
  obtain a b c where abc: "sender_id m = a" "author_id m = b"
    "(case author m of None \<Rightarrow> Undefined | Some x \<Rightarrow> a_id x) = c" by simp
  show ?thesis
    unfolding formatMessage_def senderIdentifier_def abc
    by (cases a; cases b; cases c) (simp_all add: js_or_def js_or_default_def js_truthy_def)
qed

subsection \<open>The notification loop\<close>

lemma newKeys_Nil: "newKeys usr w [] = {}"
  by (simp add: newKeys_def)

lemma newKeys_Cons:
  "newKeys usr w (m # ms) =
     (if isNewMessage usr w m then insert (notificationId (m_id m)) (newKeys usr w ms)
      else newKeys usr w ms)"
  by (auto simp: newKeys_def)

lemma newKeys_append: "newKeys usr w (xs @ ys) = newKeys usr w xs \<union> newKeys usr w ys"
  by (auto simp: newKeys_def)

lemma newArrivals_Nil: "newArrivals uid w [] = {}"
  by (simp add: newArrivals_def)

lemma newArrivals_Cons:
  "newArrivals uid w (m # ms) =
     (if senderIdentifier m \<noteq> uid \<and> w < r_id m then insert (r_id m) (newArrivals uid w ms)
      else newArrivals uid w ms)"
  by (auto simp: newArrivals_def)

lemma newKeys_arrivals:
  "newKeys (Some u) w (map formatMessage ms) = (\<lambda>i. ''msg_'' @ i) ` newArrivals (u_id u) w ms"
  by (induction ms)
     (simp_all add: newKeys_Nil newKeys_Cons newArrivals_Nil newArrivals_Cons isNewMessage_def
        isFromOtherUser_def formatMessage_id formatMessage_userId notificationId_def)

lemma find_SomeD: "find P xs = Some x \<Longrightarrow> P x \<and> x \<in> set xs"
  by (induction xs) (auto split: if_splits)

lemma newNotif_shape: "pollNotification c (m_id m) (newNotif clk c m)"
  by (simp add: pollNotification_def newNotif_def notificationId_def)

lemma notifyLoop_added:
  "\<exists>A. notifyLoop clk usr c w ms (prev, new) = (A @ prev, new @ rev A)
       \<and> distinct (map n_id A)
       \<and> set (map n_id A) = newKeys usr w ms - n_id ` set prev
       \<and> set A \<subseteq> newNotif clk c ` {m \<in> set ms. isNewMessage usr w m}"
proof (induction ms arbitrary: prev new)
  case Nil
  show ?case by (simp add: newKeys_Nil)
next
  case (Cons m ms)
  let ?k = "notificationId (m_id m)"
  let ?nn = "newNotif clk c m"
  show ?case
  proof (cases "isNewMessage usr w m")
    case False
    from Cons.IH[of prev new] obtain A where
      A: "notifyLoop clk usr c w ms (prev, new) = (A @ prev, new @ rev A)"
         "distinct (map n_id A)"
         "set (map n_id A) = newKeys usr w ms - n_id ` set prev"
         "set A \<subseteq> newNotif clk c ` {m \<in> set ms. isNewMessage usr w m}" by blast
    show ?thesis
      apply (rule exI[of _ A])
      using A False by (auto simp: newKeys_Cons)
  next
    case True
    then have other: "isFromOtherUser usr m" by (simp add: isNewMessage_def)
    show ?thesis
    proof (cases "find (\<lambda>n. n_id n = ?k) prev")
      case (Some e)
      from find_SomeD[OF Some] have "n_id e = ?k" "e \<in> set prev" by simp_all
      then have inprev: "?k \<in> n_id ` set prev"
        by (metis imageI)
      from Cons.IH[of prev new] obtain A where
        A: "notifyLoop clk usr c w ms (prev, new) = (A @ prev, new @ rev A)"
           "distinct (map n_id A)"
           "set (map n_id A) = newKeys usr w ms - n_id ` set prev"
           "set A \<subseteq> newNotif clk c ` {m \<in> set ms. isNewMessage usr w m}" by blast
      show ?thesis
        apply (rule exI[of _ A])
        using A True other Some inprev by (auto simp: newKeys_Cons)
    next
      case None
      then have notin: "?k \<notin> n_id ` set prev"
        by (auto simp: find_None_iff)
      have kn: "n_id ?nn = ?k" by (simp add: newNotif_def)
      from Cons.IH[of "?nn # prev" "new @ [?nn]"] obtain A where
        A: "notifyLoop clk usr c w ms (?nn # prev, new @ [?nn]) = (A @ ?nn # prev, (new @ [?nn]) @ rev A)"
           "distinct (map n_id A)"
           "set (map n_id A) = newKeys usr w ms - n_id ` set (?nn # prev)"
           "set A \<subseteq> newNotif clk c ` {m \<in> set ms. isNewMessage usr w m}" by blast
      have 1: "notifyLoop clk usr c w (m # ms) (prev, new) = ((A @ [?nn]) @ prev, new @ rev (A @ [?nn]))"
        using A(1) True other None by simp
      have 2: "distinct (map n_id (A @ [?nn]))"
        using A(2,3) kn by auto
      have 3: "set (map n_id (A @ [?nn])) = newKeys usr w (m # ms) - n_id ` set prev"
        using A(3) kn notin True by (auto simp: newKeys_Cons)
      have 4: "set (A @ [?nn]) \<subseteq> newNotif clk c ` {x \<in> set (m # ms). isNewMessage usr w x}"
        using A(4) True by auto
      show ?thesis
        using 1 2 3 4 by blast
    qed
  qed
qed

subsection \<open>Polling with the chat closed\<close>

lemma load_closed_with_watermark:
  assumes closed: "\<not> cl_showChatPopup cl"
    and wm: "localStorage s (lastSeenKey c) = Some w" and w: "w \<noteq> []"
  shows "\<exists>A. notifications (loadConversationMessages clk sched cl c (Body b) s) = A @ notifications s
          \<and> distinct (map n_id A)
          \<and> set (map n_id A) = newKeys (cl_user cl) w (map formatMessage (messagesOf b))
                                 - n_id ` set (notifications s)
          \<and> (\<forall>n \<in> set A. \<exists>i. pollNotification c i n)
          \<and> unreadMessagesCount (loadConversationMessages clk sched cl c (Body b) s)
              = unreadMessagesCount s + (case sched of AtCall \<Rightarrow> length A | AtRender \<Rightarrow> 0)
          \<and> localStorage (loadConversationMessages clk sched cl c (Body b) s) = localStorage s"
proof (cases "messagesOf b = []")
  case True
  show ?thesis
    apply (rule exI[of _ "[]"])
    using True closed wm w
    by (simp add: loadConversationMessages_def apiCall_def Let_def truthy_def newKeys_Nil
        split: updaters.splits)
next
  case False
  let ?fm = "map formatMessage (messagesOf b)"
  from notifyLoop_added[of clk "cl_user cl" c w ?fm "notifications s" "[]"]
  obtain A where
    A: "notifyLoop clk (cl_user cl) c w ?fm (notifications s, []) = (A @ notifications s, [] @ rev A)"
       "distinct (map n_id A)"
       "set (map n_id A) = newKeys (cl_user cl) w ?fm - n_id ` set (notifications s)"
       "set A \<subseteq> newNotif clk c ` {m \<in> set ?fm. isNewMessage (cl_user cl) w m}" by blast
  have shape: "\<forall>n \<in> set A. \<exists>i. pollNotification c i n"
    using A(4) newNotif_shape by blast
  have eq: "notifications (loadConversationMessages clk sched cl c (Body b) s) = A @ notifications s
     \<and> unreadMessagesCount (loadConversationMessages clk sched cl c (Body b) s)
              = unreadMessagesCount s + (case sched of AtCall \<Rightarrow> length A | AtRender \<Rightarrow> 0)
     \<and> localStorage (loadConversationMessages clk sched cl c (Body b) s) = localStorage s"
    using False closed wm w A(1)
    by (cases sched) (simp_all add: loadConversationMessages_def apiCall_def Let_def truthy_def)
  show ?thesis
    using eq A(2,3) shape by blast
qed

lemma polls_closed_with_watermark:
  assumes "\<not> cl_showChatPopup cl" "localStorage s (lastSeenKey c) = Some w" "w \<noteq> []"
  shows "\<exists>A. notifications (run (polls sched cl c fetches) s) = A @ notifications s
          \<and> distinct (map n_id A)
          \<and> set (map n_id A) = newKeys (cl_user cl) w (map formatMessage (concat (map snd fetches)))
                                 - n_id ` set (notifications s)
          \<and> (\<forall>n \<in> set A. \<exists>i. pollNotification c i n)
          \<and> unreadMessagesCount (run (polls sched cl c fetches) s)
              = unreadMessagesCount s + (case sched of AtCall \<Rightarrow> length A | AtRender \<Rightarrow> 0)"
  using assms
proof (induction fetches arbitrary: s)
  case Nil
  show ?case
    by (rule exI[of _ "[]"]) (simp add: polls_def newKeys_Nil split: updaters.splits)
next
  case (Cons f fetches)
  obtain clk ms where f: "f = (clk, ms)" by (cases f)
  let ?s1 = "loadConversationMessages clk sched cl c (Body (ArrayBody ms)) s"
  let ?fm = "map formatMessage ms"
  have mo: "messagesOf (ArrayBody ms) = ms" by (simp add: messagesOf_def)
  from load_closed_with_watermark[OF Cons.prems, of clk sched "ArrayBody ms"]
  obtain A1 where
    A1: "notifications ?s1 = A1 @ notifications s"
        "distinct (map n_id A1)"
        "set (map n_id A1) = newKeys (cl_user cl) w ?fm - n_id ` set (notifications s)"
        "\<forall>n \<in> set A1. \<exists>i. pollNotification c i n"
        "unreadMessagesCount ?s1
           = unreadMessagesCount s + (case sched of AtCall \<Rightarrow> length A1 | AtRender \<Rightarrow> 0)"
        "localStorage ?s1 = localStorage s"
    unfolding mo by blast
  have p2: "localStorage ?s1 (lastSeenKey c) = Some w" using A1(6) Cons.prems(2) by simp
  from Cons.IH[OF Cons.prems(1) p2 Cons.prems(3)]
  obtain A2 where
    A2: "notifications (run (polls sched cl c fetches) ?s1) = A2 @ notifications ?s1"
        "distinct (map n_id A2)"
        "set (map n_id A2) = newKeys (cl_user cl) w (map formatMessage (concat (map snd fetches)))
                                 - n_id ` set (notifications ?s1)"
        "\<forall>n \<in> set A2. \<exists>i. pollNotification c i n"
        "unreadMessagesCount (run (polls sched cl c fetches) ?s1)
           = unreadMessagesCount ?s1 + (case sched of AtCall \<Rightarrow> length A2 | AtRender \<Rightarrow> 0)"
    by blast
  have runeq: "run (polls sched cl c (f # fetches)) s = run (polls sched cl c fetches) ?s1"
    by (simp add: polls_def f)
  have fmeq: "map formatMessage (concat (map snd (f # fetches)))
                = ?fm @ map formatMessage (concat (map snd fetches))"
    by (simp add: f)
  have 1: "notifications (run (polls sched cl c (f # fetches)) s) = (A2 @ A1) @ notifications s"
    using runeq A2(1) A1(1) by simp
  have 2: "distinct (map n_id (A2 @ A1))"
    using A1(1,2) A2(2,3) by auto
  have 3: "set (map n_id (A2 @ A1))
             = newKeys (cl_user cl) w (map formatMessage (concat (map snd (f # fetches))))
                 - n_id ` set (notifications s)"
    unfolding fmeq newKeys_append using A1(1,3) A2(3) by auto
  have 4: "\<forall>n \<in> set (A2 @ A1). \<exists>i. pollNotification c i n"
    using A1(4) A2(4) by auto
  have 5: "unreadMessagesCount (run (polls sched cl c (f # fetches)) s)
             = unreadMessagesCount s + (case sched of AtCall \<Rightarrow> length (A2 @ A1) | AtRender \<Rightarrow> 0)"
    using runeq A2(5) A1(5) by (cases sched) simp_all
  show ?case using 1 2 3 4 5 by blast
qed

text \<open>
  Claim C4, as amended. Take any run of successful polls of a conversation made by a
  function whose closure has the chat closed and the current user \<open>u\<close>, while a non-empty
  watermark \<open>w\<close> is stored (the same message may be fetched any number of times). If the
  fetched messages that another user sent and that sort after \<open>w\<close> have exactly three
  distinct identifiers, none of them notified yet, the run puts exactly three
  notifications in front of the list: unread notifications of type \<^verbatim>\<open>new_message\<close> for
  these three messages, with the pairwise different keys \<^verbatim>\<open>msg_<id>\<close>. When React runs the
  updaters at the call of the setter, the unread counter increases by exactly 3.
  Deliveries over the WebSocket are not covered.
\<close>

theorem three_polled_messages_three_notifications:
  assumes closed: "\<not> cl_showChatPopup cl" and usr: "cl_user cl = Some u"
    and wm: "localStorage s (''lastSeenMessage_'' @ c) = Some w" and w: "w \<noteq> []"
    and three: "card (newArrivals (u_id u) w (concat (map snd fetches))) = 3"
    and fresh: "\<forall>i \<in> newArrivals (u_id u) w (concat (map snd fetches)).
                  ''msg_'' @ i \<notin> n_id ` set (notifications s)"
  shows "\<exists>A. notifications (run (polls sched cl c fetches) s) = A @ notifications s
          \<and> length A = 3 \<and> distinct (map n_id A)
          \<and> n_id ` set A = (\<lambda>i. ''msg_'' @ i) ` newArrivals (u_id u) w (concat (map snd fetches))
          \<and> (\<forall>n \<in> set A. \<exists>i \<in> newArrivals (u_id u) w (concat (map snd fetches)).
                pollNotification c i n)
          \<and> (sched = AtCall \<longrightarrow>
                unreadMessagesCount (run (polls sched cl c fetches) s) = unreadMessagesCount s + 3)"
proof -
  let ?N = "newArrivals (u_id u) w (concat (map snd fetches))"
  let ?K = "(\<lambda>i. ''msg_'' @ i) ` ?N"
  have wm': "localStorage s (lastSeenKey c) = Some w" using wm by (simp add: lastSeenKey_def)
  from polls_closed_with_watermark[OF closed wm' w, of sched fetches]
  obtain A where
    A: "notifications (run (polls sched cl c fetches) s) = A @ notifications s"
       "distinct (map n_id A)"
       "set (map n_id A) = newKeys (cl_user cl) w (map formatMessage (concat (map snd fetches)))
                                 - n_id ` set (notifications s)"
       "\<forall>n \<in> set A. \<exists>i. pollNotification c i n"
       "unreadMessagesCount (run (polls sched cl c fetches) s)
          = unreadMessagesCount s + (case sched of AtCall \<Rightarrow> length A | AtRender \<Rightarrow> 0)"
    by blast
  have keys: "newKeys (cl_user cl) w (map formatMessage (concat (map snd fetches))) = ?K"
    unfolding usr by (rule newKeys_arrivals)
  have disj: "?K \<inter> n_id ` set (notifications s) = {}"
    using fresh by blast
  have ids: "n_id ` set A = ?K"
  proof -
    have "n_id ` set A = ?K - n_id ` set (notifications s)"
      using A(3) keys by simp
    then show ?thesis using disj by blast
  qed
  have inj: "inj_on (\<lambda>i. ''msg_'' @ i) ?N"
    by (rule inj_onI) simp
  have "length A = card (n_id ` set A)"
    using distinct_card[OF A(2)] by simp
  also have "\<dots> = card ?N" unfolding ids using inj by (rule card_image)
  finally have len: "length A = 3" using three by simp
  have shape: "\<exists>i \<in> ?N. pollNotification c i n" if n: "n \<in> set A" for n
  proof -
    from A(4) n obtain i where i: "pollNotification c i n" by blast
    then have k: "n_id n = ''msg_'' @ i" by (simp add: pollNotification_def)
    from n have "n_id n \<in> n_id ` set A" by (rule imageI)
    then have "n_id n \<in> ?K" unfolding ids .
    then obtain j where j: "j \<in> ?N" "n_id n = ''msg_'' @ j" by (rule imageE)
    from k j(2) have "i = j" by simp
    with i j(1) show ?thesis by blast
  qed
  have cnt: "sched = AtCall \<longrightarrow>
      unreadMessagesCount (run (polls sched cl c fetches) s) = unreadMessagesCount s + 3"
    using A(5) len by (cases sched) simp_all
  have all: "\<forall>n \<in> set A. \<exists>i \<in> ?N. pollNotification c i n"
    using shape by blast
  show ?thesis
    apply (rule exI[of _ A])
    using A(1,2) len ids all cnt by simp
qed

lemma twoPolls_arrivals:
  "newArrivals ''u1'' ''m0'' (concat (map snd twoPolls)) = {''m1'', ''m2'', ''m3''}"
  by (simp add: twoPolls_def msg1_def msg2_def msg3_def textMessage_def newArrivals_Cons
      newArrivals_Nil senderIdentifier_def insert_commute)

theorem three_polled_messages_three_notifications_witness:
  "\<not> cl_showChatPopup aliceClosed \<and> cl_user aliceClosed = Some alice \<and> u_id alice = ''u1''
   \<and> localStorage closedWithWatermark (''lastSeenMessage_'' @ ''c1'') = Some ''m0''
   \<and> ''m0'' \<noteq> []
   \<and> newArrivals ''u1'' ''m0'' (concat (map snd twoPolls)) = {''m1'', ''m2'', ''m3''}
   \<and> notifications closedWithWatermark = []
   \<and> length (notifications (run (polls AtCall aliceClosed ''c1'' twoPolls) closedWithWatermark)) = 3
   \<and> n_id ` set (notifications (run (polls AtCall aliceClosed ''c1'' twoPolls) closedWithWatermark))
        = {''msg_m1'', ''msg_m2'', ''msg_m3''}
   \<and> unreadMessagesCount (run (polls AtCall aliceClosed ''c1'' twoPolls) closedWithWatermark) = 3"
proof -
  have h1: "\<not> cl_showChatPopup aliceClosed" by (simp add: aliceClosed_def)
  have h2: "cl_user aliceClosed = Some alice" by (simp add: aliceClosed_def)
  have h3: "localStorage closedWithWatermark (''lastSeenMessage_'' @ ''c1'') = Some ''m0''"
    by (simp add: closedWithWatermark_def initialState_def lastSeenKey_def)
  have h4: "''m0'' \<noteq> []" by simp
  have uid: "u_id alice = ''u1''" by (simp add: alice_def)
  have h5: "card (newArrivals (u_id alice) ''m0'' (concat (map snd twoPolls))) = 3"
    unfolding uid twoPolls_arrivals by simp
  have n0: "notifications closedWithWatermark = [] \<and> unreadMessagesCount closedWithWatermark = 0"
    by (simp add: closedWithWatermark_def initialState_def)
  have h6: "\<forall>i \<in> newArrivals (u_id alice) ''m0'' (concat (map snd twoPolls)).
              ''msg_'' @ i \<notin> n_id ` set (notifications closedWithWatermark)"
    using n0 by simp
  from three_polled_messages_three_notifications[OF h1 h2 h3 h4 h5 h6, of AtCall]
  obtain A where
    A: "notifications (run (polls AtCall aliceClosed ''c1'' twoPolls) closedWithWatermark)
          = A @ notifications closedWithWatermark"
       "length A = 3"
       "n_id ` set A = (\<lambda>i. ''msg_'' @ i) ` newArrivals (u_id alice) ''m0'' (concat (map snd twoPolls))"
       "unreadMessagesCount (run (polls AtCall aliceClosed ''c1'' twoPolls) closedWithWatermark)
          = unreadMessagesCount closedWithWatermark + 3"
    by blast
  have img: "(\<lambda>i. ''msg_'' @ i) ` {''m1'', ''m2'', ''m3''} = {''msg_m1'', ''msg_m2'', ''msg_m3''}"
    by simp
  show ?thesis
    using h1 h2 h3 uid twoPolls_arrivals n0 A img by simp
qed

text \<open>
  The claim as stated fails for deliveries over the WebSocket: after three distinct
  messages of other users were pushed while the chat was closed (the first one twice), the
  unread counter has not moved and there are four notifications, whose keys are the clock
  readings and not derived from the message identifiers.
\<close>

lemma pushes_result:
  "unreadMessagesCount (run pushes closedWithWatermark) = 0
   \<and> map n_id (notifications (run pushes closedWithWatermark)) = [''1004'', ''1003'', ''1002'', ''1001'']
   \<and> map n_data (notifications (run pushes closedWithWatermark))
       = [PushData ''m3'' (Str ''u3'') (Str ''c1''), PushData ''m2'' (Str ''u2'') (Str ''c1''),
          PushData ''m1'' (Str ''u2'') (Str ''c1''), PushData ''m1'' (Str ''u2'') (Str ''c1'')]"
  by (simp add: fixture_defs op_defs)

theorem pushed_messages_counterexample:
  "\<not> showChatPopup closedWithWatermark
   \<and> localStorage closedWithWatermark (lastSeenKey ''c1'') = Some ''m0''
   \<and> unreadMessagesCount (run pushes closedWithWatermark)
        \<noteq> unreadMessagesCount closedWithWatermark + 3
   \<and> length (notifications (run pushes closedWithWatermark))
        \<noteq> length (notifications closedWithWatermark) + 3
   \<and> map n_id (notifications (run pushes closedWithWatermark))
        = [''1004'', ''1003'', ''1002'', ''1001'']"
proof -
  have "length (notifications (run pushes closedWithWatermark))
          = length (map n_id (notifications (run pushes closedWithWatermark)))" by simp
  also have "\<dots> = 4" using pushes_result by simp
  finally have len: "length (notifications (run pushes closedWithWatermark)) = 4" .
  have init: "\<not> showChatPopup closedWithWatermark
     \<and> localStorage closedWithWatermark (lastSeenKey ''c1'') = Some ''m0''
     \<and> unreadMessagesCount closedWithWatermark = 0
     \<and> notifications closedWithWatermark = []"
    by (simp add: closedWithWatermark_def initialState_def)
  show ?thesis using pushes_result len init by simp
qed

subsection \<open>The watermark\<close>

lemma lastSeenKey_inj: "lastSeenKey c = lastSeenKey c' \<longleftrightarrow> c = c'"
  by (simp add: lastSeenKey_def)

lemma lastSeenKey_not_session:
  "lastSeenKey c \<noteq> ''accessToken''" "lastSeenKey c \<noteq> ''user''" "lastSeenKey c \<noteq> ''organization''"
  by (simp_all add: lastSeenKey_def)

lemma load_watermark:
  "localStorage (loadConversationMessages clk sched cl c' r s) (lastSeenKey c)
     = localStorage s (lastSeenKey c)
   \<or> (\<exists>v. loadLast c (Load clk sched cl c' r) = [v]
          \<and> localStorage (loadConversationMessages clk sched cl c' r s) (lastSeenKey c) = Some v)"
proof (cases r)
  case Unauthorized
  then show ?thesis
    by (simp add: loadConversationMessages_def apiCall_def showToast_def lastSeenKey_not_session)
next
  case (Failed e)
  then show ?thesis
    by (simp add: loadConversationMessages_def apiCall_def showToast_def)
next
  case (Body b)
  show ?thesis
  proof (cases "messagesOf b = []")
    case True
    then show ?thesis using Body
      by (simp add: loadConversationMessages_def apiCall_def Let_def split: prod.splits)
  next
    case False
    then show ?thesis using Body
      by (auto simp: loadConversationMessages_def apiCall_def Let_def lastSeenKey_inj last_map
          formatMessage_id split: prod.splits)
  qed
qed

lemma send_storage:
  "localStorage (sendMessageAPI clk cl c' r s) (lastSeenKey c) = localStorage s (lastSeenKey c)"
  by (cases r)
     (simp_all add: sendMessageAPI_def apiCall_def showToast_def Let_def lastSeenKey_not_session)

lemma push_storage:
  "localStorage (connectWebSocket_onmessage clk cl ev s) = localStorage s"
  by (simp add: connectWebSocket_onmessage_def addNotification_def showToast_def Let_def
      split: ws_event.splits option.splits)

lemma step_watermark:
  "localStorage (step x s) (lastSeenKey c) = localStorage s (lastSeenKey c)
   \<or> (\<exists>v. loadLast c x = [v] \<and> localStorage (step x s) (lastSeenKey c) = Some v)"
proof (cases x)
  case (Load clk sched cl c' r)
  then show ?thesis using load_watermark[of clk sched cl c' r s c] by simp
next
  case (Push clk cl ev)
  then show ?thesis by (simp add: push_storage)
next
  case (Send clk cl c' r)
  then show ?thesis by (simp add: send_storage)
next
  case ToggleChat
  then show ?thesis by (simp add: toggleChat_def)
next
  case CloseChat
  then show ?thesis by (simp add: closeChat_def)
next
  case (MarkRead n)
  then show ?thesis by (simp add: markNotificationAsRead_def Let_def)
next
  case MarkAllRead
  then show ?thesis by (simp add: markAllNotificationsAsRead_def)
qed

lemma run_append: "run (xs @ ys) s = run ys (run xs s)"
  by (induction xs arbitrary: s) simp_all

lemma loadLasts_Cons: "loadLasts c (x # xs) = loadLast c x @ loadLasts c xs"
  by (simp add: loadLasts_def)

lemma loadLasts_append: "loadLasts c (xs @ ys) = loadLasts c xs @ loadLasts c ys"
  by (simp add: loadLasts_def)

lemma run_watermark:
  "localStorage (run ops s) (lastSeenKey c) = localStorage s (lastSeenKey c)
   \<or> (\<exists>v \<in> set (loadLasts c ops). localStorage (run ops s) (lastSeenKey c) = Some v)"
proof (induction ops arbitrary: s)
  case Nil
  show ?case by simp
next
  case (Cons x ops)
  from Cons.IH[of "step x s"] step_watermark[of x s c]
  show ?case by (auto simp: loadLasts_Cons)
qed

lemma wm_le_refl: "wm_le a a"
  by (simp add: wm_le_def split: option.splits)

text \<open>
  Claim C2, as amended. The watermark of a conversation is changed only by
  \<^verbatim>\<open>loadConversationMessages\<close> for that conversation, which stores the identifier of the
  last fetched message without comparing it with the stored one (lemma \<open>run_watermark\<close>).
  So between any two points of a sequence of loads, live messages, sends and
  open, close and read operations the watermark does not decrease, provided the last
  identifiers of the successive successful non-empty fetches of the conversation are
  non-decreasing and not below the watermark stored at the start. An identifier equal to
  the stored one is written again. This holds whatever the closures of the operations
  hold and whenever React runs the updaters.
\<close>

theorem watermark_monotone:
  assumes srt: "sorted (loadLasts c ops)"
    and lower: "\<forall>v \<in> set (loadLasts c ops). wm_le (localStorage s (lastSeenKey c)) (Some v)"
    and split: "ops = xs @ ys"
  shows "wm_le (localStorage (run xs s) (lastSeenKey c)) (localStorage (run ops s) (lastSeenKey c))"
proof -
  let ?k = "lastSeenKey c"
  let ?s1 = "run xs s"
  have fin: "run ops s = run ys ?s1" using split by (simp add: run_append)
  from run_watermark[of ys ?s1 c]
  consider (same) "localStorage (run ys ?s1) ?k = localStorage ?s1 ?k"
    | (written) v where "v \<in> set (loadLasts c ys)" "localStorage (run ys ?s1) ?k = Some v"
    by blast
  then show ?thesis
  proof cases
    case same
    then show ?thesis using fin by (simp add: wm_le_refl)
  next
    case written
    from run_watermark[of xs s c]
    consider (init) "localStorage ?s1 ?k = localStorage s ?k"
      | (earlier) u where "u \<in> set (loadLasts c xs)" "localStorage ?s1 ?k = Some u"
      by blast
    then show ?thesis
    proof cases
      case init
      have "v \<in> set (loadLasts c ops)" using written(1) split by (simp add: loadLasts_append)
      then show ?thesis using lower init written(2) fin by simp
    next
      case earlier
      have "u \<le> v"
        using srt earlier(1) written(1) split by (auto simp: loadLasts_append sorted_append)
      then show ?thesis using earlier(2) written(2) fin by (simp add: wm_le_def)
    qed
  qed
qed

lemma loadLasts_growing: "loadLasts ''c1'' ([ToggleChat, fetch2] @ [fetch3]) = [''m2'', ''m3'']"
  by (simp add: loadLasts_def fixture_defs messagesOf_def)

theorem watermark_monotone_witness:
  "loadLasts ''c1'' ([ToggleChat, fetch2] @ [fetch3]) = [''m2'', ''m3'']
   \<and> sorted [''m2'', ''m3'']
   \<and> localStorage closedWithWatermark (lastSeenKey ''c1'') = Some ''m0''
   \<and> wm_le (Some ''m0'') (Some ''m2'') \<and> wm_le (Some ''m0'') (Some ''m3'')
   \<and> wm_le (localStorage (run [ToggleChat, fetch2] closedWithWatermark) (lastSeenKey ''c1''))
           (localStorage (run ([ToggleChat, fetch2] @ [fetch3]) closedWithWatermark) (lastSeenKey ''c1''))"
proof -
  have h0: "localStorage closedWithWatermark (lastSeenKey ''c1'') = Some ''m0''
            \<and> wm_le (Some ''m0'') (Some ''m2'') \<and> wm_le (Some ''m0'') (Some ''m3'')
            \<and> sorted [''m2'', ''m3'']"
    by (simp add: closedWithWatermark_def initialState_def wm_le_def)
  have h1: "sorted (loadLasts ''c1'' ([ToggleChat, fetch2] @ [fetch3]))"
    unfolding loadLasts_growing by simp
  have h2: "\<forall>v \<in> set (loadLasts ''c1'' ([ToggleChat, fetch2] @ [fetch3])).
         wm_le (localStorage closedWithWatermark (lastSeenKey ''c1'')) (Some v)"
    unfolding loadLasts_growing using h0 by simp
  from watermark_monotone[OF h1 h2 refl] loadLasts_growing h0 show ?thesis by blast
qed

text \<open>
  The claim as stated fails: with the chat open, a fetch that ends with \<^verbatim>\<open>m3\<close> stores
  \<^verbatim>\<open>m3\<close>, and a later fetch that ends with \<^verbatim>\<open>m2\<close> (the newest message is gone from the
  history) stores \<^verbatim>\<open>m2\<close> over it.
\<close>

lemma open_fetch3_watermark: "localStorage (run [ToggleChat, fetch3] closedWithWatermark) (lastSeenKey ''c1'') = Some ''m3''"
  by (simp add: fixture_defs op_defs)

lemma open_fetch3_fetch2_watermark: "localStorage (run ([ToggleChat, fetch3] @ [fetch2]) closedWithWatermark) (lastSeenKey ''c1'') = Some ''m2''"
  by (simp add: fixture_defs op_defs)

theorem watermark_regress_counterexample:
  "\<not> wm_le (localStorage (run [ToggleChat, fetch3] closedWithWatermark) (lastSeenKey ''c1''))
            (localStorage (run ([ToggleChat, fetch3] @ [fetch2]) closedWithWatermark) (lastSeenKey ''c1''))"
  unfolding open_fetch3_watermark open_fetch3_fetch2_watermark by (simp add: wm_le_def)

subsection \<open>The first load of a conversation\<close>

lemma markConversationRead_id: "n_id (markConversationRead c n) = n_id n"
  by (simp add: markConversationRead_def)



subsection \<open>A failed fetch\<close>

text \<open>
  Claim C7, as amended. When the fetch of the message history fails in
  \<^verbatim>\<open>loadConversationMessages\<close> of App, the failure is shown as an error toast and the local
  message list, the conversations, the notifications, the unread counter and every stored
  watermark are as before the call (after a 401 \<^verbatim>\<open>apiCall\<close> has removed the session keys
  from the storage, not the watermarks). In \<^verbatim>\<open>loadMessages\<close> of the Chat component the
  failure is put in the error banner and the local message list is set to the empty list.
\<close>

theorem failed_fetch_effects:
  "(let s' = loadConversationMessages clk sched cl c (Failed e) s in
      chatMessages s' = chatMessages s \<and> conversations s' = conversations s
      \<and> notifications s' = notifications s \<and> unreadMessagesCount s' = unreadMessagesCount s
      \<and> localStorage s' = localStorage s
      \<and> toasts s' = toasts s @ [\<lparr>t_id = now_ms clk, t_type = ''error'', t_title = ''Error'',
            t_message = (if e \<noteq> [] then e else ''Failed to load messages'')\<rparr>])
   \<and> (let s' = loadConversationMessages clk sched cl c Unauthorized s in
      chatMessages s' = chatMessages s \<and> conversations s' = conversations s
      \<and> notifications s' = notifications s \<and> unreadMessagesCount s' = unreadMessagesCount s
      \<and> (\<forall>c'. localStorage s' (lastSeenKey c') = localStorage s (lastSeenKey c'))
      \<and> t_type (last (toasts s')) = ''error'')
   \<and> messages (loadMessages (Failed e) cs) = []
   \<and> chat_error (loadMessages (Failed e) cs) = Some (''Failed to load messages: '' @ e)
   \<and> messages (loadMessages Unauthorized cs) = []"
  by (simp add: loadConversationMessages_def apiCall_def showToast_def Let_def
      lastSeenKey_not_session loadMessages_def errorMessage_def)

text \<open>
  The claim as stated fails in the Chat component: a failed fetch empties a message list
  that held one message.
\<close>

theorem chat_failed_fetch_counterexample:
  "messages (loadMessages (Failed ''Failed to fetch'') chatWithOneMessage)
     \<noteq> messages chatWithOneMessage"
  by (simp add: loadMessages_def chatWithOneMessage_def)

subsection \<open>Opening a conversation\<close>





subsection \<open>Messages of the current user\<close>

lemma notifyLoop_skips_own:
  "notifyLoop clk usr c w ms (prev, new)
     = notifyLoop clk usr c w (filter (isFromOtherUser usr) ms) (prev, new)"
  by (induction ms arbitrary: prev new) (simp_all add: isNewMessage_def split: option.splits)

text \<open>
  On the poll path a fetched list whose messages all have the current user as their
  sender, under any of the three labels, adds no notification and does not increase the
  unread counter.
\<close>

lemma poll_own_messages_never_notify:
  assumes usr: "cl_user cl = Some u"
    and own: "\<forall>m \<in> set ms. senderIdentifier m = u_id u"
  shows "map n_id (notifications (loadConversationMessages clk sched cl c (Body (ArrayBody ms)) s))
           = map n_id (notifications s)
     \<and> unreadMessagesCount (loadConversationMessages clk sched cl c (Body (ArrayBody ms)) s)
          \<le> unreadMessagesCount s"
proof -
  have "filter (isFromOtherUser (cl_user cl)) (map formatMessage ms) = []"
    using own usr by (simp add: filter_empty_conv isFromOtherUser_def formatMessage_userId)
  then have l0: "notifyLoop clk (cl_user cl) c w (map formatMessage ms) (notifications s, [])
               = (notifications s, [])" for w
    using notifyLoop_skips_own[of clk "cl_user cl" c w "map formatMessage ms" "notifications s" "[]"]
    by simp
  show ?thesis
    using l0
    by (simp add: loadConversationMessages_def apiCall_def Let_def messagesOf_def
        markConversationRead_id)
qed

text \<open>
  On the WebSocket path a chat message whose \<^verbatim>\<open>sender_id\<close> is the identifier of the user in
  the closure of the handler leaves the state as it is.
\<close>

lemma push_own_sender_id:
  "cl_user cl = Some u \<Longrightarrow> sender_id m = Str (u_id u) \<Longrightarrow>
   connectWebSocket_onmessage clk cl (Json \<lparr>e_type = ty, e_message = Some m\<rparr>) s = s"
  by (simp add: connectWebSocket_onmessage_def js_field_def)

text \<open>
  The comparison of the handler does not convert: with no user in the closure a sender that
  is \<^verbatim>\<open>null\<close> differs from \<^verbatim>\<open>undefined\<close> and the message is notified, an absent sender does
  not and the state stays as it is.
\<close>

lemma push_null_and_absent_sender:
  "cl_user cl = None \<Longrightarrow> sender_id m = Null \<Longrightarrow>
   length (notifications (connectWebSocket_onmessage clk cl (chatEvent m) s))
     = Suc (length (notifications s))"
  "cl_user cl = None \<Longrightarrow> sender_id m = Undefined \<Longrightarrow>
   connectWebSocket_onmessage clk cl (chatEvent m) s = s"
  by (simp_all add: connectWebSocket_onmessage_def chatEvent_def js_field_def addNotification_def
      showToast_def Let_def)


subsection \<open>Messages without a sender\<close>

lemma find_None_image: "k \<notin> f ` set xs \<Longrightarrow> find (\<lambda>n. f n = k) xs = None"
  by (induction xs) auto

text \<open>
  Claim C10. A fetched message that carries no sender identifier in any of the three
  shapes (\<^verbatim>\<open>sender_id\<close>, \<^verbatim>\<open>author_id\<close> and \<^verbatim>\<open>author.id\<close> absent, \<^verbatim>\<open>null\<close> or empty) is normalised
  to the sender identifier \<^verbatim>\<open>''\<close>. The identifier of the current user being non-empty, the
  message is classified as coming from another user. When the calling function sees the
  chat closed and an older watermark is stored, the message gets its notification, and it
  counts as one unread message when React runs the updaters at the call of the setter.
\<close>

theorem senderless_message_is_from_other_user:
  assumes s1: "\<not> js_truthy (sender_id m)" and s2: "\<not> js_truthy (author_id m)"
    and s3: "\<not> js_truthy (case author m of None \<Rightarrow> Undefined | Some a \<Rightarrow> a_id a)"
    and uid: "\<forall>u. cl_user cl = Some u \<longrightarrow> u_id u \<noteq> []"
  shows "m_userId (formatMessage m) = []
     \<and> isFromOtherUser (cl_user cl) (formatMessage m)
     \<and> (\<not> cl_showChatPopup cl \<and> localStorage s (''lastSeenMessage_'' @ c) = Some w \<and> w \<noteq> []
          \<and> w < r_id m \<and> ''msg_'' @ r_id m \<notin> n_id ` set (notifications s) \<longrightarrow>
          (\<exists>n. notifications (loadConversationMessages clk sched cl c (Body (ArrayBody [m])) s)
                 = n # notifications s
               \<and> pollNotification c (r_id m) n)
          \<and> (sched = AtCall \<longrightarrow>
               unreadMessagesCount (loadConversationMessages clk sched cl c (Body (ArrayBody [m])) s)
                 = unreadMessagesCount s + 1))"
proof -
  have a: "m_userId (formatMessage m) = []"
    using s1 s2 s3
    by (simp add: formatMessage_def js_or_def js_or_default_def js_truthy_def split: jsval.splits)
  have b: "isFromOtherUser (cl_user cl) (formatMessage m)"
    using a uid by (auto simp: isFromOtherUser_def split: option.splits)
  have c: "(\<exists>n. notifications (loadConversationMessages clk sched cl c (Body (ArrayBody [m])) s)
                 = n # notifications s
               \<and> pollNotification c (r_id m) n)
          \<and> (sched = AtCall \<longrightarrow>
               unreadMessagesCount (loadConversationMessages clk sched cl c (Body (ArrayBody [m])) s)
                 = unreadMessagesCount s + 1)"
    if h: "\<not> cl_showChatPopup cl" "localStorage s (''lastSeenMessage_'' @ c) = Some w" "w \<noteq> []"
       "w < r_id m" "''msg_'' @ r_id m \<notin> n_id ` set (notifications s)"
  proof -
    have f: "find (\<lambda>n. n_id n = notificationId (r_id m)) (notifications s) = None"
      using h(5) unfolding notificationId_def by (rule find_None_image)
    have wm: "localStorage s (lastSeenKey c) = Some w" using h(2) by (simp add: lastSeenKey_def)
    have ns: "notifications (loadConversationMessages clk sched cl c (Body (ArrayBody [m])) s)
                = newNotif clk c (formatMessage m) # notifications s"
      using h(1,3,4) wm b f
      by (cases sched)
         (simp_all add: loadConversationMessages_def apiCall_def Let_def messagesOf_def
            truthy_def isNewMessage_def formatMessage_id)
    have cnt: "sched = AtCall \<longrightarrow>
        unreadMessagesCount (loadConversationMessages clk sched cl c (Body (ArrayBody [m])) s)
          = unreadMessagesCount s + 1"
      using h(1,3,4) wm b f
      by (cases sched)
         (simp_all add: loadConversationMessages_def apiCall_def Let_def messagesOf_def
            truthy_def isNewMessage_def formatMessage_id)
    have "pollNotification c (r_id m) (newNotif clk c (formatMessage m))"
      using newNotif_shape[of c "formatMessage m" clk] by (simp add: formatMessage_id)
    then show ?thesis using ns cnt by blast
  qed
  show ?thesis using a b c by blast
qed

theorem senderless_message_is_from_other_user_witness:
  "\<not> js_truthy (sender_id anonymousMessage) \<and> \<not> js_truthy (author_id anonymousMessage)
   \<and> \<not> js_truthy (case author anonymousMessage of None \<Rightarrow> Undefined | Some a \<Rightarrow> a_id a)
   \<and> cl_user aliceClosed = Some alice \<and> u_id alice \<noteq> []
   \<and> \<not> cl_showChatPopup aliceClosed
   \<and> localStorage closedWithWatermark (''lastSeenMessage_'' @ ''c1'') = Some ''m0''
   \<and> ''m0'' \<noteq> [] \<and> ''m0'' < r_id anonymousMessage
   \<and> ''msg_'' @ r_id anonymousMessage \<notin> n_id ` set (notifications closedWithWatermark)
   \<and> m_userId (formatMessage anonymousMessage) = []
   \<and> map n_id (notifications (loadConversationMessages (at ''1001'') AtCall aliceClosed ''c1''
         (Body (ArrayBody [anonymousMessage])) closedWithWatermark)) = [''msg_m5'']
   \<and> unreadMessagesCount (loadConversationMessages (at ''1001'') AtCall aliceClosed ''c1''
         (Body (ArrayBody [anonymousMessage])) closedWithWatermark) = 1"
proof -
  have h1: "\<not> js_truthy (sender_id anonymousMessage)" by (simp add: fixture_defs js_truthy_def)
  have h2: "\<not> js_truthy (author_id anonymousMessage)" by (simp add: fixture_defs js_truthy_def)
  have h3: "\<not> js_truthy (case author anonymousMessage of None \<Rightarrow> Undefined | Some a \<Rightarrow> a_id a)"
    by (simp add: fixture_defs js_truthy_def)
  have h7: "cl_user aliceClosed = Some alice \<and> u_id alice \<noteq> []"
    by (simp add: fixture_defs)
  then have h4: "\<forall>u. cl_user aliceClosed = Some u \<longrightarrow> u_id u \<noteq> []" by simp
  have h5: "\<not> cl_showChatPopup aliceClosed
     \<and> localStorage closedWithWatermark (''lastSeenMessage_'' @ ''c1'') = Some ''m0''
     \<and> ''m0'' \<noteq> [] \<and> ''m0'' < r_id anonymousMessage
     \<and> ''msg_'' @ r_id anonymousMessage \<notin> n_id ` set (notifications closedWithWatermark)"
    by (simp add: fixture_defs lastSeenKey_def)
  have h6: "unreadMessagesCount closedWithWatermark = 0 \<and> notifications closedWithWatermark = []
            \<and> r_id anonymousMessage = ''m5''"
    by (simp add: fixture_defs)
  note T = senderless_message_is_from_other_user[OF h1 h2 h3 h4,
      of closedWithWatermark "''c1''" "''m0''" "at ''1001''" AtCall]
  from T have a: "m_userId (formatMessage anonymousMessage) = []" by blast
  from T h5 obtain n where
    n: "notifications (loadConversationMessages (at ''1001'') AtCall aliceClosed ''c1''
          (Body (ArrayBody [anonymousMessage])) closedWithWatermark)
        = n # notifications closedWithWatermark"
       "pollNotification ''c1'' (r_id anonymousMessage) n"
    by blast
  from T h5 have cnt: "unreadMessagesCount (loadConversationMessages (at ''1001'') AtCall
          aliceClosed ''c1'' (Body (ArrayBody [anonymousMessage])) closedWithWatermark)
        = unreadMessagesCount closedWithWatermark + 1"
    by blast
  have ids: "map n_id (notifications (loadConversationMessages (at ''1001'') AtCall aliceClosed
          ''c1'' (Body (ArrayBody [anonymousMessage])) closedWithWatermark)) = [''msg_m5'']"
    using n h6 by (simp add: pollNotification_def)
  show ?thesis using h1 h2 h3 h5 h7 a ids cnt h6 by simp
qed

subsection \<open>Wholesale replacement of the local list\<close>

lemma load_lists:
  "chatMessages (loadConversationMessages clk sched cl c (Body b) s) = map formatMessage (messagesOf b)
   \<and> conversations (loadConversationMessages clk sched cl c (Body b) s) c
       = Some (map formatMessage (messagesOf b))"
  by (simp add: loadConversationMessages_def apiCall_def Let_def split: prod.splits)



subsection \<open>Duplicates in the local message list\<close>

text \<open>
  Claim C1 fails in App: \<^verbatim>\<open>sendMessageAPI\<close> appends the created message without looking
  for its identifier in the list. When a poll has fetched the message before the
  continuation of the send runs, the list holds it twice. \<^verbatim>\<open>sendMessage\<close> of the Chat
  component checks for the identifier first, and its list holds the message once.
\<close>

theorem send_after_poll_duplicates:
  "map m_id (chatMessages (run [Load (at ''1001'') sched cl ''c1'' (Body (ArrayBody [ownMessage])),
                                Send (at ''1002'') cl' ''c1'' (Body ownMessage)] signedIn))
     = [''m7'', ''m7'']
   \<and> map (map m_id) (case_option [] (\<lambda>x. [x])
        (conversations (run [Load (at ''1001'') sched cl ''c1'' (Body (ArrayBody [ownMessage])),
                                Send (at ''1002'') cl' ''c1'' (Body ownMessage)] signedIn) ''c1''))
     = [[''m7'', ''m7'']]
   \<and> map r_id (messages (chat_run [ChatLoad (Body (ArrayBody [ownMessage])),
                                   ChatSend (Body ownMessage)] emptyChat)) = [''m7'']"
proof -
  let ?s1 = "loadConversationMessages (at ''1001'') sched cl ''c1'' (Body (ArrayBody [ownMessage]))
               signedIn"
  have l: "chatMessages ?s1 = map formatMessage [ownMessage]"
          "conversations ?s1 ''c1'' = Some (map formatMessage [ownMessage])"
    using load_lists[of "at ''1001''" sched cl "''c1''" "ArrayBody [ownMessage]" signedIn]
    by (simp_all add: messagesOf_def)
  have app: "map m_id (chatMessages (sendMessageAPI (at ''1002'') cl' ''c1'' (Body ownMessage) ?s1))
               = [''m7'', ''m7'']"
    using l by (simp add: sendMessageAPI_def apiCall_def Let_def formatMessage_id ownMessage_def
        textMessage_def)
  have conv: "map (map m_id) (case_option [] (\<lambda>x. [x])
        (conversations (sendMessageAPI (at ''1002'') cl' ''c1'' (Body ownMessage) ?s1) ''c1''))
               = [[''m7'', ''m7'']]"
    using l by (simp add: sendMessageAPI_def apiCall_def Let_def formatMessage_id ownMessage_def
        textMessage_def)
  have chat: "map r_id (messages (chat_run [ChatLoad (Body (ArrayBody [ownMessage])),
                                   ChatSend (Body ownMessage)] emptyChat)) = [''m7'']"
    by (simp add: fixture_defs op_defs)
  show ?thesis using app conv chat by simp
qed

text \<open>
  In the Chat component the identifiers of the local list stay pairwise different under
  loads, sends and deletions, when the fetched lists have no duplicates.
\<close>

lemma appendUnlessPresent_distinct:
  "distinct (map r_id prev) \<Longrightarrow> distinct (map r_id (appendUnlessPresent m prev))"
  by (auto simp: appendUnlessPresent_def list_ex_iff)

lemma chat_step_distinct:
  assumes "distinct (map r_id (messages c))"
    and "\<forall>b. x = ChatLoad (Body b) \<longrightarrow> distinct (map r_id (messagesOf b))"
  shows "distinct (map r_id (messages (chat_step x c)))"
proof (cases x)
  case (ChatLoad r)
  then show ?thesis using assms by (cases r) (simp_all add: loadMessages_def)
next
  case (ChatSend r)
  then show ?thesis using assms(1)
    by (cases r) (simp_all add: sendMessage_def appendUnlessPresent_distinct)
next
  case (ChatDelete i r)
  then show ?thesis using assms(1)
    by (cases r) (simp_all add: deleteMessage_def distinct_map_filter)
qed

lemma chat_run_distinct:
  "distinct (map r_id (messages c)) \<Longrightarrow>
   (\<forall>b. ChatLoad (Body b) \<in> set ops \<longrightarrow> distinct (map r_id (messagesOf b))) \<Longrightarrow>
   distinct (map r_id (messages (chat_run ops c)))"
proof (induction ops arbitrary: c)
  case Nil
  then show ?case by simp
next
  case (Cons x ops)
  have "distinct (map r_id (messages (chat_step x c)))"
    using Cons.prems by (intro chat_step_distinct) auto
  then show ?case using Cons.IH Cons.prems(2) by simp
qed

subsection \<open>Handlers on the shared socket\<close>

lemma dispatch_listeners:
  "dispatch ws ev st = fold (\<lambda>h. call h ev) (listeners ws) (dispatch (ws\<lparr>listeners := []\<rparr>) ev st)"
  by (simp add: dispatch_def)

lemma dispatch_chained:
  "dispatch (ws\<lparr>onmessage := Some (Chained (onmessage ws) body)\<rparr>) ev st
     = fold (\<lambda>h. call h ev) (listeners ws) (body ev (dispatch (ws\<lparr>listeners := []\<rparr>) ev st))"
  by (cases "onmessage ws") (simp_all add: dispatch_def)

lemma dispatch_listener_added:
  "dispatch (ws\<lparr>listeners := listeners ws @ [Fn f]\<rparr>) ev st = f ev (dispatch ws ev st)"
  by (simp add: dispatch_def)

lemma connectWebSocket_closes_previous:
  "fst (connectWebSocket accessToken appHandler wsRef)
     = (if accessToken = [] then None
        else map_option (\<lambda>ws. ws\<lparr>readyState := CLOSING\<rparr>) wsRef)"
  by (simp add: connectWebSocket_def)

text \<open>
  Claim C8. Installing a handler keeps the handlers that are registered on the socket.
  After \<^verbatim>\<open>connectSocket\<close> of \<^verbatim>\<open>Chat.tsx\<close> has run on an open socket, the delivery of an event
  does what the previous \<^verbatim>\<open>onmessage\<close> handler did, then what the new body does, then what
  the listeners did, where the delivery did the first and the last before; on a socket
  without listeners it is the previous delivery followed by the body. On a socket that is
  not open \<^verbatim>\<open>connectSocket\<close> installs nothing. After \<^verbatim>\<open>EnhancedChat.tsx\<close> has added its
  listener, the delivery is the previous delivery followed by the listener.
  \<^verbatim>\<open>connectWebSocket\<close> of App installs nothing when the access token of its closure is
  empty; otherwise it assigns its handler to the socket it has just created, on which no
  handler and no listener is registered, and puts this socket in \<^verbatim>\<open>wsRef\<close>.
\<close>

theorem handler_installation_is_additive:
  "dispatchRef (connectSocket body (Some ws)) ev st
     = (if readyState ws = OPEN
        then fold (\<lambda>h. call h ev) (listeners ws)
               (body ev (dispatchRef (Some (ws\<lparr>listeners := []\<rparr>)) ev st))
        else dispatchRef (Some ws) ev st)
   \<and> dispatchRef (Some ws) ev st
     = fold (\<lambda>h. call h ev) (listeners ws) (dispatchRef (Some (ws\<lparr>listeners := []\<rparr>)) ev st)
   \<and> dispatchRef (connectSocket body (Some (ws\<lparr>listeners := [], readyState := OPEN\<rparr>))) ev st
     = body ev (dispatchRef (Some (ws\<lparr>listeners := [], readyState := OPEN\<rparr>)) ev st)
   \<and> dispatchRef (addEventListener handleMessage (Some ws)) ev st
     = handleMessage ev (dispatchRef (Some ws) ev st)
   \<and> connectSocket body None = None \<and> addEventListener handleMessage None = None
   \<and> snd (connectWebSocket accessToken appHandler wsRef)
     = (if accessToken = [] then wsRef else Some (newWebSocket\<lparr>onmessage := Some (Fn appHandler)\<rparr>))
   \<and> onmessage (newWebSocket :: ('e, 's) websocket) = None
   \<and> listeners (newWebSocket :: ('e, 's) websocket) = []
   \<and> dispatchRef (Some (newWebSocket\<lparr>onmessage := Some (Fn appHandler)\<rparr>)) ev st
     = appHandler ev st"
proof -
  have 1: "dispatchRef (connectSocket body (Some ws)) ev st
     = (if readyState ws = OPEN
        then fold (\<lambda>h. call h ev) (listeners ws)
               (body ev (dispatchRef (Some (ws\<lparr>listeners := []\<rparr>)) ev st))
        else dispatchRef (Some ws) ev st)"
    using dispatch_chained[of ws body ev st] by (simp add: dispatchRef_def connectSocket_def)
  have 2: "dispatchRef (Some ws) ev st
     = fold (\<lambda>h. call h ev) (listeners ws) (dispatchRef (Some (ws\<lparr>listeners := []\<rparr>)) ev st)"
    using dispatch_listeners[of ws ev st] by (simp add: dispatchRef_def)
  have 3: "dispatchRef (connectSocket body (Some (ws\<lparr>listeners := [], readyState := OPEN\<rparr>))) ev st
     = body ev (dispatchRef (Some (ws\<lparr>listeners := [], readyState := OPEN\<rparr>)) ev st)"
    by (cases "onmessage ws") (simp_all add: dispatchRef_def connectSocket_def dispatch_def)
  have 4: "dispatchRef (addEventListener handleMessage (Some ws)) ev st
     = handleMessage ev (dispatchRef (Some ws) ev st)"
    by (simp add: dispatchRef_def addEventListener_def dispatch_listener_added)
  have 5: "connectSocket body None = None \<and> addEventListener handleMessage None = None"
    by (simp add: connectSocket_def addEventListener_def)
  have 6: "snd (connectWebSocket accessToken appHandler wsRef)
     = (if accessToken = [] then wsRef else Some (newWebSocket\<lparr>onmessage := Some (Fn appHandler)\<rparr>))"
    by (simp add: connectWebSocket_def)
  have 7: "onmessage (newWebSocket :: ('e, 's) websocket) = None
           \<and> listeners (newWebSocket :: ('e, 's) websocket) = []"
    by (simp add: newWebSocket_def)
  have 8: "dispatchRef (Some (newWebSocket\<lparr>onmessage := Some (Fn appHandler)\<rparr>)) ev st
     = appHandler ev st"
    by (simp add: dispatchRef_def dispatch_def newWebSocket_def)
  show ?thesis using 1 2 3 4 5 6 7 8 by blast
qed

text \<open>
  An instance with handlers that add their name to a list: on an open socket with the
  handler of App assigned and a listener registered, the delivery calls App and then the
  listener; once \<^verbatim>\<open>connectSocket\<close> has run it calls App, the body of Chat and the listener.
\<close>

theorem handler_installation_is_additive_witness:
  "readyState loggedSocket = OPEN
   \<and> dispatchRef (Some loggedSocket) NotJson [] = [''App'', ''EnhancedChat'']
   \<and> dispatchRef (connectSocket (logCall ''Chat'') (Some loggedSocket)) NotJson []
       = [''App'', ''Chat'', ''EnhancedChat'']
   \<and> dispatchRef (addEventListener (logCall ''Other'') (Some loggedSocket)) NotJson []
       = [''App'', ''EnhancedChat'', ''Other'']"
proof -
  have o: "readyState loggedSocket = OPEN" by (simp add: loggedSocket_def)
  have base: "dispatchRef (Some (loggedSocket\<lparr>listeners := []\<rparr>)) NotJson [] = [''App'']"
    by (simp add: dispatchRef_def dispatch_def loggedSocket_def logCall_def)
  have ls: "listeners loggedSocket = [Fn (logCall ''EnhancedChat'')]"
    by (simp add: loggedSocket_def)
  note T = handler_installation_is_additive[of "logCall ''Chat''" loggedSocket NotJson "[]"
      "logCall ''Other''"]
  from T have a: "dispatchRef (connectSocket (logCall ''Chat'') (Some loggedSocket)) NotJson []
     = (if readyState loggedSocket = OPEN
        then fold (\<lambda>h. call h NotJson) (listeners loggedSocket)
               (logCall ''Chat'' NotJson (dispatchRef (Some (loggedSocket\<lparr>listeners := []\<rparr>)) NotJson []))
        else dispatchRef (Some loggedSocket) NotJson [])"
    by blast
  from T have b: "dispatchRef (Some loggedSocket) NotJson []
     = fold (\<lambda>h. call h NotJson) (listeners loggedSocket)
         (dispatchRef (Some (loggedSocket\<lparr>listeners := []\<rparr>)) NotJson [])"
    by blast
  from T have c: "dispatchRef (addEventListener (logCall ''Other'') (Some loggedSocket)) NotJson []
     = logCall ''Other'' NotJson (dispatchRef (Some loggedSocket) NotJson [])"
    by blast
  have b': "dispatchRef (Some loggedSocket) NotJson [] = [''App'', ''EnhancedChat'']"
    unfolding b base ls by (simp add: logCall_def)
  have a': "dispatchRef (connectSocket (logCall ''Chat'') (Some loggedSocket)) NotJson []
              = [''App'', ''Chat'', ''EnhancedChat'']"
    unfolding a base ls using o by (simp add: logCall_def)
  have c': "dispatchRef (addEventListener (logCall ''Other'') (Some loggedSocket)) NotJson []
              = [''App'', ''EnhancedChat'', ''Other'']"
    unfolding c b' by (simp add: logCall_def)
  show ?thesis using o a' b' c' by simp
qed


end
